theory Spec2Isabelle
  imports
    Main
    "HOL-Library.Finite_Map"
    "HOL-Library.Char_ord"
    "HOL-Library.List_Lexorder"
    "HOL-Library.Multiset"
begin

section \<open>The chat store of \<^verbatim>\<open>internal/chats/store.go\<close>\<close>

text \<open>
  The store keeps one newline-delimited log per session below a root directory, in the
  sub-directories \<^verbatim>\<open>active\<close> and \<^verbatim>\<open>archived\<close>. Go strings and byte slices are byte
  sequences, modelled as \<^typ>\<open>string\<close>. The operations of the store are functions from a
  file-system state to an optional error and the next state.
\<close>

subsection \<open>Errors\<close>

text \<open>One constructor per \<^verbatim>\<open>fmt.Errorf\<close> message of the package, plus the context error.\<close>

datatype error =
    ErrCreateStorageDir   \<comment> \<open>unable to create chat storage directory\<close>
  | ErrCreateArchiveDir   \<comment> \<open>unable to create chat archive directory\<close>
  | ErrSessionRequired    \<comment> \<open>session id is required\<close>
  | ErrMarshalMessage     \<comment> \<open>unable to marshal message\<close>
  | ErrOpenSession        \<comment> \<open>unable to open chat session file\<close>
  | ErrWriteMessage       \<comment> \<open>unable to write chat message\<close>
  | ErrFlushMessage       \<comment> \<open>unable to flush chat message\<close>
  | ErrStatSession        \<comment> \<open>unable to stat chat session file\<close>
  | ErrStatArchive        \<comment> \<open>unable to stat chat archive file\<close>
  | ErrRemoveSession      \<comment> \<open>unable to remove chat session file\<close>
  | ErrArchiveSession     \<comment> \<open>unable to archive chat session file\<close>
  | ErrReadSession        \<comment> \<open>unable to read chat session file\<close>
  | ErrOpenArchive        \<comment> \<open>unable to open chat archive file\<close>
  | ErrAppendArchive      \<comment> \<open>unable to append chat archive file\<close>
  | ErrNotConfigured      \<comment> \<open>chat storage is not configured\<close>
  | ErrOutputRequired     \<comment> \<open>output path is required\<close>
  | ErrMarshalExport      \<comment> \<open>unable to marshal chat export\<close>
  | ErrCreateExportDir    \<comment> \<open>unable to create export directory\<close>
  | ErrWriteExport        \<comment> \<open>unable to write export file\<close>
  | ErrReadDir            \<comment> \<open>unable to read chat directory\<close>
  | ErrContext            \<comment> \<open>the error of a cancelled context\<close>
  | ErrDecodeMessage      \<comment> \<open>unable to decode chat message\<close>
  | ErrScanSession        \<comment> \<open>unable to scan chat session file\<close>

subsection \<open>UTF-8\<close>

definition byte :: "char \<Rightarrow> nat" where
  "byte c = of_char c"

definition cont :: "char \<Rightarrow> bool" where
  "cont c \<longleftrightarrow> 0x80 \<le> byte c \<and> byte c \<le> 0xBF"

text \<open>
  The width of the rune that \<^verbatim>\<open>utf8.DecodeRuneInString\<close> reads at the head of a non-empty
  string: \<open>Some n\<close> for a well-formed sequence of \<open>n\<close> bytes, \<open>None\<close> where Go returns
  \<^verbatim>\<open>(RuneError, 1)\<close> (a byte that starts no well-formed sequence).
\<close>

fun utf8_size :: "string \<Rightarrow> nat option" where
  "utf8_size [] = None"
| "utf8_size (c # cs) =
     (let x = byte c in
      if x < 0x80 then Some 1
      else if 0xC2 \<le> x \<and> x \<le> 0xDF then
        (case cs of c1 # _ \<Rightarrow> if cont c1 then Some 2 else None | _ \<Rightarrow> None)
      else if 0xE0 \<le> x \<and> x \<le> 0xEF then
        (case cs of
           c1 # c2 # _ \<Rightarrow>
             if (if x = 0xE0 then 0xA0 else 0x80) \<le> byte c1
                \<and> byte c1 \<le> (if x = 0xED then 0x9F else 0xBF) \<and> cont c2
             then Some 3 else None
         | _ \<Rightarrow> None)
      else if 0xF0 \<le> x \<and> x \<le> 0xF4 then
        (case cs of
           c1 # c2 # c3 # _ \<Rightarrow>
             if (if x = 0xF0 then 0x90 else 0x80) \<le> byte c1
                \<and> byte c1 \<le> (if x = 0xF4 then 0x8F else 0xBF) \<and> cont c2 \<and> cont c3
             then Some 4 else None
         | _ \<Rightarrow> None)
      else None)"

subsection \<open>The scanner of \<^verbatim>\<open>encoding/json\<close>\<close>

text \<open>
  \<^verbatim>\<open>json.Marshal\<close> and \<^verbatim>\<open>json.Unmarshal\<close> decide what a record looks like on disk and
  whether a line loads. Both rest on the byte-at-a-time scanner of the package, transcribed
  here state by state. The scanner's \<^verbatim>\<open>err\<close> field is set exactly when its step becomes
  \<^verbatim>\<open>stateError\<close>, and \<^verbatim>\<open>endTop\<close> exactly when it becomes \<^verbatim>\<open>stateEndTop\<close>, so the two
  fields are read off the step. The innermost entry of \<^verbatim>\<open>parseState\<close> is the head of the
  list.
\<close>

datatype sstate =
    StBeginValueOrEmpty | StBeginValue | StBeginStringOrEmpty | StBeginString
  | StEndValue | StEndTop
  | StInString | StInStringEsc | StInStringEscU | StInStringEscU1 | StInStringEscU12
  | StInStringEscU123
  | StNeg | St1 | St0 | StDot | StDot0 | StE | StESign | StE0
  | StT | StTr | StTru | StF | StFa | StFal | StFals | StN | StNu | StNul
  | StError

datatype pstate = ParseObjectKey | ParseObjectValue | ParseArrayValue

datatype opcode =
    ScanContinue | ScanBeginLiteral | ScanBeginObject | ScanObjectKey | ScanObjectValue
  | ScanEndObject | ScanBeginArray | ScanArrayValue | ScanEndArray
  | ScanSkipSpace | ScanEnd | ScanError

record scanner =
  step :: sstate
  parseState :: "pstate list"

definition maxNestingDepth :: nat where
  "maxNestingDepth = 10000"

definition isSpace :: "char \<Rightarrow> bool" where
  "isSpace c \<longleftrightarrow> c = CHR '' '' \<or> c = CHR 0x09 \<or> c = CHR 0x0D \<or> c = CHR 0x0A"

definition isDigit :: "char \<Rightarrow> bool" where
  "isDigit c \<longleftrightarrow> CHR ''0'' \<le> c \<and> c \<le> CHR ''9''"

definition isHex :: "char \<Rightarrow> bool" where
  "isHex c \<longleftrightarrow> isDigit c \<or> (CHR ''a'' \<le> c \<and> c \<le> CHR ''f'') \<or> (CHR ''A'' \<le> c \<and> c \<le> CHR ''F'')"

definition scan_error :: "scanner \<Rightarrow> opcode \<times> scanner" where
  "scan_error s = (ScanError, s\<lparr>step := StError\<rparr>)"

definition continue_at :: "sstate \<Rightarrow> scanner \<Rightarrow> opcode \<times> scanner" where
  "continue_at st s = (ScanContinue, s\<lparr>step := st\<rparr>)"

definition pushParseState :: "scanner \<Rightarrow> pstate \<Rightarrow> opcode \<Rightarrow> opcode \<times> scanner" where
  "pushParseState s newParseState successState =
     (let s1 = s\<lparr>parseState := newParseState # parseState s\<rparr>
      in if length (parseState s1) \<le> maxNestingDepth then (successState, s1)
         else scan_error s1)"

definition popParseState :: "scanner \<Rightarrow> scanner" where
  "popParseState s =
     (let ps = tl (parseState s)
      in if ps = [] then s\<lparr>parseState := ps, step := StEndTop\<rparr>
         else s\<lparr>parseState := ps, step := StEndValue\<rparr>)"

definition stateEndTop :: "scanner \<Rightarrow> char \<Rightarrow> opcode \<times> scanner" where
  "stateEndTop s c = (ScanEnd, if isSpace c then s else s\<lparr>step := StError\<rparr>)"

definition stateEndValue :: "scanner \<Rightarrow> char \<Rightarrow> opcode \<times> scanner" where
  "stateEndValue s c =
     (case parseState s of
        [] \<Rightarrow> stateEndTop (s\<lparr>step := StEndTop\<rparr>) c
      | ps # rest \<Rightarrow>
          if isSpace c then (ScanSkipSpace, s\<lparr>step := StEndValue\<rparr>)
          else (case ps of
            ParseObjectKey \<Rightarrow>
              if c = CHR '':'' then
                (ScanObjectKey, s\<lparr>parseState := ParseObjectValue # rest, step := StBeginValue\<rparr>)
              else scan_error s
          | ParseObjectValue \<Rightarrow>
              if c = CHR '','' then
                (ScanObjectValue, s\<lparr>parseState := ParseObjectKey # rest, step := StBeginString\<rparr>)
              else if c = CHR ''}'' then (ScanEndObject, popParseState s)
              else scan_error s
          | ParseArrayValue \<Rightarrow>
              if c = CHR '','' then (ScanArrayValue, s\<lparr>step := StBeginValue\<rparr>)
              else if c = CHR '']'' then (ScanEndArray, popParseState s)
              else scan_error s))"

definition stateBeginValue :: "scanner \<Rightarrow> char \<Rightarrow> opcode \<times> scanner" where
  "stateBeginValue s c =
     (if isSpace c then (ScanSkipSpace, s)
      else if c = CHR ''{'' then
        pushParseState (s\<lparr>step := StBeginStringOrEmpty\<rparr>) ParseObjectKey ScanBeginObject
      else if c = CHR ''['' then
        pushParseState (s\<lparr>step := StBeginValueOrEmpty\<rparr>) ParseArrayValue ScanBeginArray
      else if c = CHR 0x22 then (ScanBeginLiteral, s\<lparr>step := StInString\<rparr>)
      else if c = CHR ''-'' then (ScanBeginLiteral, s\<lparr>step := StNeg\<rparr>)
      else if c = CHR ''0'' then (ScanBeginLiteral, s\<lparr>step := St0\<rparr>)
      else if c = CHR ''t'' then (ScanBeginLiteral, s\<lparr>step := StT\<rparr>)
      else if c = CHR ''f'' then (ScanBeginLiteral, s\<lparr>step := StF\<rparr>)
      else if c = CHR ''n'' then (ScanBeginLiteral, s\<lparr>step := StN\<rparr>)
      else if CHR ''1'' \<le> c \<and> c \<le> CHR ''9'' then (ScanBeginLiteral, s\<lparr>step := St1\<rparr>)
      else scan_error s)"

definition stateBeginValueOrEmpty :: "scanner \<Rightarrow> char \<Rightarrow> opcode \<times> scanner" where
  "stateBeginValueOrEmpty s c =
     (if isSpace c then (ScanSkipSpace, s)
      else if c = CHR '']'' then stateEndValue s c
      else stateBeginValue s c)"

definition stateBeginString :: "scanner \<Rightarrow> char \<Rightarrow> opcode \<times> scanner" where
  "stateBeginString s c =
     (if isSpace c then (ScanSkipSpace, s)
      else if c = CHR 0x22 then (ScanBeginLiteral, s\<lparr>step := StInString\<rparr>)
      else scan_error s)"

definition stateBeginStringOrEmpty :: "scanner \<Rightarrow> char \<Rightarrow> opcode \<times> scanner" where
  "stateBeginStringOrEmpty s c =
     (if isSpace c then (ScanSkipSpace, s)
      else if c = CHR ''}'' then
        stateEndValue (s\<lparr>parseState := ParseObjectValue # tl (parseState s)\<rparr>) c
      else stateBeginString s c)"

definition stateInString :: "scanner \<Rightarrow> char \<Rightarrow> opcode \<times> scanner" where
  "stateInString s c =
     (if c = CHR 0x22 then continue_at StEndValue s
      else if c = CHR 0x5C then continue_at StInStringEsc s
      else if byte c < 0x20 then scan_error s
      else (ScanContinue, s))"

definition stateInStringEsc :: "scanner \<Rightarrow> char \<Rightarrow> opcode \<times> scanner" where
  "stateInStringEsc s c =
     (if c \<in> set ''bfnrt'' \<or> c = CHR 0x5C \<or> c = CHR ''/'' \<or> c = CHR 0x22
      then continue_at StInString s
      else if c = CHR ''u'' then continue_at StInStringEscU s
      else scan_error s)"

definition state0 :: "scanner \<Rightarrow> char \<Rightarrow> opcode \<times> scanner" where
  "state0 s c =
     (if c = CHR ''.'' then continue_at StDot s
      else if c = CHR ''e'' \<or> c = CHR ''E'' then continue_at StE s
      else stateEndValue s c)"

definition stateESign :: "scanner \<Rightarrow> char \<Rightarrow> opcode \<times> scanner" where
  "stateESign s c = (if isDigit c then continue_at StE0 s else scan_error s)"

text \<open>The step function held in \<^verbatim>\<open>s.step\<close>, applied to the next byte.\<close>

definition scan_step :: "scanner \<Rightarrow> char \<Rightarrow> opcode \<times> scanner" where
  "scan_step s c =
     (case step s of
        StBeginValueOrEmpty \<Rightarrow> stateBeginValueOrEmpty s c
      | StBeginValue \<Rightarrow> stateBeginValue s c
      | StBeginStringOrEmpty \<Rightarrow> stateBeginStringOrEmpty s c
      | StBeginString \<Rightarrow> stateBeginString s c
      | StEndValue \<Rightarrow> stateEndValue s c
      | StEndTop \<Rightarrow> stateEndTop s c
      | StInString \<Rightarrow> stateInString s c
      | StInStringEsc \<Rightarrow> stateInStringEsc s c
      | StInStringEscU \<Rightarrow> (if isHex c then continue_at StInStringEscU1 s else scan_error s)
      | StInStringEscU1 \<Rightarrow> (if isHex c then continue_at StInStringEscU12 s else scan_error s)
      | StInStringEscU12 \<Rightarrow> (if isHex c then continue_at StInStringEscU123 s else scan_error s)
      | StInStringEscU123 \<Rightarrow> (if isHex c then continue_at StInString s else scan_error s)
      | StNeg \<Rightarrow>
          (if c = CHR ''0'' then continue_at St0 s
           else if CHR ''1'' \<le> c \<and> c \<le> CHR ''9'' then continue_at St1 s
           else scan_error s)
      | St1 \<Rightarrow> (if isDigit c then continue_at St1 s else state0 s c)
      | St0 \<Rightarrow> state0 s c
      | StDot \<Rightarrow> (if isDigit c then continue_at StDot0 s else scan_error s)
      | StDot0 \<Rightarrow>
          (if isDigit c then (ScanContinue, s)
           else if c = CHR ''e'' \<or> c = CHR ''E'' then continue_at StE s
           else stateEndValue s c)
      | StE \<Rightarrow>
          (if c = CHR ''+'' \<or> c = CHR ''-'' then continue_at StESign s else stateESign s c)
      | StESign \<Rightarrow> stateESign s c
      | StE0 \<Rightarrow> (if isDigit c then (ScanContinue, s) else stateEndValue s c)
      | StT \<Rightarrow> (if c = CHR ''r'' then continue_at StTr s else scan_error s)
      | StTr \<Rightarrow> (if c = CHR ''u'' then continue_at StTru s else scan_error s)
      | StTru \<Rightarrow> (if c = CHR ''e'' then continue_at StEndValue s else scan_error s)
      | StF \<Rightarrow> (if c = CHR ''a'' then continue_at StFa s else scan_error s)
      | StFa \<Rightarrow> (if c = CHR ''l'' then continue_at StFal s else scan_error s)
      | StFal \<Rightarrow> (if c = CHR ''s'' then continue_at StFals s else scan_error s)
      | StFals \<Rightarrow> (if c = CHR ''e'' then continue_at StEndValue s else scan_error s)
      | StN \<Rightarrow> (if c = CHR ''u'' then continue_at StNu s else scan_error s)
      | StNu \<Rightarrow> (if c = CHR ''l'' then continue_at StNul s else scan_error s)
      | StNul \<Rightarrow> (if c = CHR ''l'' then continue_at StEndValue s else scan_error s)
      | StError \<Rightarrow> (ScanError, s))"

definition scanner_reset :: scanner where
  "scanner_reset = \<lparr>step = StBeginValue, parseState = []\<rparr>"

text \<open>
  \<^verbatim>\<open>scanner.eof\<close> succeeds when no error is recorded and the top-level value has ended,
  possibly after one more space.
\<close>

definition eof_ok :: "scanner \<Rightarrow> bool" where
  "eof_ok s \<longleftrightarrow>
     step s \<noteq> StError \<and> (step s = StEndTop \<or> step (snd (scan_step s (CHR '' ''))) = StEndTop)"

text \<open>The loop of \<^verbatim>\<open>checkValid\<close>: \<open>None\<close> as soon as a step returns \<^verbatim>\<open>scanError\<close>.\<close>

fun scan_bytes :: "scanner \<Rightarrow> string \<Rightarrow> scanner option" where
  "scan_bytes s [] = Some s"
| "scan_bytes s (c # cs) =
     (case scan_step s c of
        (ScanError, _) \<Rightarrow> None
      | (_, s1) \<Rightarrow> scan_bytes s1 cs)"

definition checkValid :: "string \<Rightarrow> bool" where
  "checkValid data =
     (case scan_bytes scanner_reset data of None \<Rightarrow> False | Some s \<Rightarrow> eof_ok s)"

definition hex_digit :: "nat \<Rightarrow> char" where
  "hex_digit n = ''0123456789abcdef'' ! (n mod 16)"

text \<open>
  \<^verbatim>\<open>appendCompact\<close> with \<^verbatim>\<open>escapeHTML\<close> set, as the encoder runs it on the output of every
  \<^verbatim>\<open>Marshaler\<close>: the bytes are checked by the scanner; a byte on which the scanner answers
  \<^verbatim>\<open>scanSkipSpace\<close> or \<^verbatim>\<open>scanEnd\<close> is dropped; \<^verbatim>\<open><\<close>, \<^verbatim>\<open>>\<close> and \<^verbatim>\<open>&\<close> become
  \<^verbatim>\<open>\u00XX\<close>; the three bytes of U+2028 and U+2029 become their \<^verbatim>\<open>\u202X\<close> escapes
  (the counter \<open>k\<close> holds how many of their bytes are still to be passed over). The result
  is \<open>None\<close> when Go returns the scanner's error.
\<close>

fun compact_loop :: "scanner \<Rightarrow> nat \<Rightarrow> string \<Rightarrow> string option" where
  "compact_loop s k [] = (if eof_ok s then Some [] else None)"
| "compact_loop s k (c # cs) =
     (case scan_step s c of
        (ScanError, _) \<Rightarrow> None
      | (v, s1) \<Rightarrow>
          if v = ScanSkipSpace \<or> v = ScanEnd then compact_loop s1 (k - 1) cs
          else if 0 < k then compact_loop s1 (k - 1) cs
          else if c = CHR ''<'' \<or> c = CHR ''>'' \<or> c = CHR ''&'' then
            map_option
              (\<lambda>r. [CHR 0x5C, CHR ''u'', CHR ''0'', CHR ''0'',
                    hex_digit (byte c div 16), hex_digit (byte c)] @ r)
              (compact_loop s1 0 cs)
          else if c = CHR 0xE2 \<and> take 1 cs = [CHR 0x80]
                  \<and> (take 1 (drop 1 cs) = [CHR 0xA8] \<or> take 1 (drop 1 cs) = [CHR 0xA9]) then
            map_option
              (\<lambda>r. [CHR 0x5C, CHR ''u'', CHR ''2'', CHR ''0'', CHR ''2'',
                    hex_digit (byte (cs ! 1))] @ r)
              (compact_loop s1 2 cs)
          else map_option ((#) c) (compact_loop s1 0 cs))"

definition appendCompact :: "string \<Rightarrow> string option" where
  "appendCompact src = compact_loop scanner_reset 0 src"

subsection \<open>Messages and their JSON form\<close>

text \<open>
  \<^verbatim>\<open>time.Time\<close> and its JSON methods are taken as a parameter: \<open>time_MarshalJSON\<close> and
  \<open>time_UnmarshalJSON\<close> stand for the two methods (\<open>None\<close> is their error) and
  \<open>time_zero\<close> for the zero value. A \<^verbatim>\<open>json.RawMessage\<close> is a byte slice that may be nil
  (\<open>None\<close>).
\<close>

record 't timelib =
  time_MarshalJSON :: "'t \<Rightarrow> string option"
  time_UnmarshalJSON :: "string \<Rightarrow> 't option"
  time_zero :: 't

record 't Message =
  SessionID :: string
  Toolset :: string
  Direction :: string
  Timestamp :: 't
  Payload :: "string option"

definition DirectionRequest :: string where
  "DirectionRequest = ''request''"

definition DirectionNotification :: string where
  "DirectionNotification = ''notification''"

definition DirectionResponse :: string where
  "DirectionResponse = ''response''"

text \<open>
  The escape \<^verbatim>\<open>appendString\<close> writes for a byte below \<^verbatim>\<open>utf8.RuneSelf\<close> that is not in
  \<^verbatim>\<open>htmlSafeSet\<close>; the bytes of that set are copied.
\<close>

definition escape_ascii :: "char \<Rightarrow> string" where
  "escape_ascii b =
     (if b = CHR 0x5C \<or> b = CHR 0x22 then [CHR 0x5C, b]
      else if b = CHR 0x08 then [CHR 0x5C, CHR ''b'']
      else if b = CHR 0x0C then [CHR 0x5C, CHR ''f'']
      else if b = CHR 0x0A then [CHR 0x5C, CHR ''n'']
      else if b = CHR 0x0D then [CHR 0x5C, CHR ''r'']
      else if b = CHR 0x09 then [CHR 0x5C, CHR ''t'']
      else if byte b < 0x20 \<or> b = CHR ''<'' \<or> b = CHR ''>'' \<or> b = CHR ''&'' then
        [CHR 0x5C, CHR ''u'', CHR ''0'', CHR ''0'', hex_digit (byte b div 16), hex_digit (byte b)]
      else [b])"

text \<open>
  The body of \<^verbatim>\<open>appendString\<close> with \<^verbatim>\<open>escapeHTML\<close> set: a byte that is not well-formed
  UTF-8 is written as the escape of U+FFFD, the runes U+2028 and U+2029 (the byte
  sequences E2 80 A8 and E2 80 A9) as their escapes, any other rune as it is.
\<close>

fun string_body :: "string \<Rightarrow> string" where
  "string_body [] = []"
| "string_body (c # cs) =
     (if byte c < 0x80 then escape_ascii c @ string_body cs
      else case utf8_size (c # cs) of
        None \<Rightarrow> [CHR 0x5C, CHR ''u'', CHR ''f'', CHR ''f'', CHR ''f'', CHR ''d''] @ string_body cs
      | Some n \<Rightarrow>
          if c = CHR 0xE2 \<and> take 2 cs = [CHR 0x80, CHR 0xA8] then
            [CHR 0x5C, CHR ''u'', CHR ''2'', CHR ''0'', CHR ''2'', CHR ''8''] @ string_body (drop 2 cs)
          else if c = CHR 0xE2 \<and> take 2 cs = [CHR 0x80, CHR 0xA9] then
            [CHR 0x5C, CHR ''u'', CHR ''2'', CHR ''0'', CHR ''2'', CHR ''9''] @ string_body (drop 2 cs)
          else c # take (n - 1) cs @ string_body (drop (n - 1) cs))"

definition appendString :: "string \<Rightarrow> string" where
  "appendString src = [CHR 0x22] @ string_body src @ [CHR 0x22]"

text \<open>
  \<^verbatim>\<open>json.Marshal\<close> of a \<^verbatim>\<open>Message\<close>: the fields in their order, \<^verbatim>\<open>toolset\<close> left out when
  empty. The timestamp and the payload are \<^verbatim>\<open>Marshaler\<close>s: the encoder passes what their
  \<^verbatim>\<open>MarshalJSON\<close> returns through \<^verbatim>\<open>appendCompact\<close> and fails when that is not valid JSON.
  A nil \<^verbatim>\<open>RawMessage\<close> marshals as \<^verbatim>\<open>null\<close>.
\<close>

definition RawMessage_MarshalJSON :: "string option \<Rightarrow> string" where
  "RawMessage_MarshalJSON m = (case m of None \<Rightarrow> ''null'' | Some b \<Rightarrow> b)"

definition json_Marshal :: "'t timelib \<Rightarrow> 't Message \<Rightarrow> string option" where
  \<open>json_Marshal tm m =
     (case time_MarshalJSON tm (Timestamp m) of
        None \<Rightarrow> None
      | Some tb \<Rightarrow>
          (case appendCompact tb of
             None \<Rightarrow> None
           | Some tj \<Rightarrow>
               (case appendCompact (RawMessage_MarshalJSON (Payload m)) of
                  None \<Rightarrow> None
                | Some pj \<Rightarrow>
                    Some (''{"sessionId":'' @ appendString (SessionID m)
                      @ (if Toolset m = [] then [] else '',"toolset":'' @ appendString (Toolset m))
                      @ '',"direction":'' @ appendString (Direction m)
                      @ '',"timestamp":'' @ tj
                      @ '',"payload":'' @ pj @ ''}''))))\<close>

subsection \<open>Decoding a line\<close>

definition hexval :: "char \<Rightarrow> nat" where
  "hexval c =
     (if isDigit c then byte c - 48
      else if CHR ''a'' \<le> c \<and> c \<le> CHR ''f'' then byte c - 87
      else byte c - 55)"

text \<open>\<^verbatim>\<open>getu4\<close>: the rune of a \<^verbatim>\<open>\uXXXX\<close> at the head, \<open>None\<close> for Go's \<open>-1\<close>.\<close>

fun getu4 :: "string \<Rightarrow> nat option" where
  "getu4 (b # u # h1 # h2 # h3 # h4 # _) =
     (if b = CHR 0x5C \<and> u = CHR ''u'' \<and> isHex h1 \<and> isHex h2 \<and> isHex h3 \<and> isHex h4
      then Some (((hexval h1 * 16 + hexval h2) * 16 + hexval h3) * 16 + hexval h4)
      else None)"
| "getu4 _ = None"

definition replacement_char :: string where
  "replacement_char = [CHR 0xEF, CHR 0xBF, CHR 0xBD]"

text \<open>\<^verbatim>\<open>utf8.EncodeRune\<close>.\<close>

definition encode_rune :: "nat \<Rightarrow> string" where
  "encode_rune r =
     (if r < 0x80 then [char_of r]
      else if r < 0x800 then [char_of (0xC0 + r div 64), char_of (0x80 + r mod 64)]
      else if 0x10FFFF < r \<or> (0xD800 \<le> r \<and> r < 0xE000) then replacement_char
      else if r < 0x10000 then
        [char_of (0xE0 + r div 4096), char_of (0x80 + r div 64 mod 64), char_of (0x80 + r mod 64)]
      else
        [char_of (0xF0 + r div 262144), char_of (0x80 + r div 4096 mod 64),
         char_of (0x80 + r div 64 mod 64), char_of (0x80 + r mod 64)])"

text \<open>
  The loop of \<^verbatim>\<open>unquoteBytes\<close> over the bytes between the quotes. A \<^verbatim>\<open>\u\<close> escape of a
  surrogate is joined with a following low surrogate (\<^verbatim>\<open>utf16.DecodeRune\<close>) or becomes
  U+FFFD; a byte that is not well-formed UTF-8 becomes U+FFFD; a well-formed rune is
  decoded and encoded again, which gives back its bytes.
\<close>

fun unquote_body :: "string \<Rightarrow> string option" where
  "unquote_body [] = Some []"
| "unquote_body (c # cs) =
     (if c = CHR 0x5C then
        (case cs of
           [] \<Rightarrow> None
         | e # rest \<Rightarrow>
             if e = CHR 0x22 \<or> e = CHR 0x5C \<or> e = CHR ''/'' \<or> e = CHR 0x27 then
               map_option ((#) e) (unquote_body rest)
             else if e = CHR ''b'' then map_option ((#) (CHR 0x08)) (unquote_body rest)
             else if e = CHR ''f'' then map_option ((#) (CHR 0x0C)) (unquote_body rest)
             else if e = CHR ''n'' then map_option ((#) (CHR 0x0A)) (unquote_body rest)
             else if e = CHR ''r'' then map_option ((#) (CHR 0x0D)) (unquote_body rest)
             else if e = CHR ''t'' then map_option ((#) (CHR 0x09)) (unquote_body rest)
             else if e = CHR ''u'' then
               (case getu4 (c # cs) of
                  None \<Rightarrow> None
                | Some rr \<Rightarrow>
                    if 0xD800 \<le> rr \<and> rr < 0xE000 then
                      (case getu4 (drop 5 cs) of
                         Some rr1 \<Rightarrow>
                           if rr < 0xDC00 \<and> 0xDC00 \<le> rr1 \<and> rr1 < 0xE000 then
                             map_option
                               ((@) (encode_rune ((rr - 0xD800) * 1024 + (rr1 - 0xDC00) + 0x10000)))
                               (unquote_body (drop 11 cs))
                           else map_option ((@) replacement_char) (unquote_body (drop 5 cs))
                       | None \<Rightarrow> map_option ((@) replacement_char) (unquote_body (drop 5 cs)))
                    else map_option ((@) (encode_rune rr)) (unquote_body (drop 5 cs)))
             else None)
      else if c = CHR 0x22 \<or> byte c < 0x20 then None
      else if byte c < 0x80 then map_option ((#) c) (unquote_body cs)
      else case utf8_size (c # cs) of
        None \<Rightarrow> map_option ((@) replacement_char) (unquote_body cs)
      | Some n \<Rightarrow> map_option ((@) (c # take (n - 1) cs)) (unquote_body (drop (n - 1) cs)))"

definition unquoteBytes :: "string \<Rightarrow> string option" where
  "unquoteBytes s =
     (if length s < 2 \<or> hd s \<noteq> CHR 0x22 \<or> last s \<noteq> CHR 0x22 then None
      else unquote_body (butlast (tl s)))"

text \<open>
  \<^verbatim>\<open>foldName\<close>, as far as it can produce an ASCII name: ASCII letters go to upper case, and
  the two runes outside ASCII whose fold class holds an ASCII letter (U+017F with S, U+212A
  with K) go to that letter. Every other rune folds to a rune outside ASCII; its bytes are
  kept, which differ from every byte of a field name.
\<close>

fun foldName :: "string \<Rightarrow> string" where
  "foldName [] = []"
| "foldName (c # cs) =
     (if CHR ''a'' \<le> c \<and> c \<le> CHR ''z'' then char_of (byte c - 32) # foldName cs
      else if c = CHR 0xC5 \<and> take 1 cs = [CHR 0xBF] then CHR ''S'' # foldName (drop 1 cs)
      else if c = CHR 0xE2 \<and> take 2 cs = [CHR 0x84, CHR 0xAA] then CHR ''K'' # foldName (drop 2 cs)
      else c # foldName cs)"

datatype field = FSessionID | FToolset | FDirection | FTimestamp | FPayload

text \<open>
  The field a key selects: the one whose name equals the key, else the one whose folded
  name equals the folded key. The five folded names are distinct, so one test does both.
\<close>

definition field_of_key :: "string \<Rightarrow> field option" where
  "field_of_key key =
     (let k = foldName key
      in if k = ''SESSIONID'' then Some FSessionID
         else if k = ''TOOLSET'' then Some FToolset
         else if k = ''DIRECTION'' then Some FDirection
         else if k = ''TIMESTAMP'' then Some FTimestamp
         else if k = ''PAYLOAD'' then Some FPayload
         else None)"

text \<open>
  The decoder walks a checked text with the scanner. For the members of the top-level
  object it takes the bytes of each key literal and of each value: a value runs from its
  first byte up to the first byte on which the scanner, back at the depth of the object,
  no longer answers \<^verbatim>\<open>scanContinue\<close> (\<^verbatim>\<open>rescanLiteral\<close> for a literal, \<^verbatim>\<open>skip\<close> for an
  array or object).
\<close>

datatype dmode = DIdle | DKey | DColon | DBeforeValue | DValue

record dstate =
  dscan :: scanner
  dmode :: dmode
  dkey :: string
  dval :: string
  dmembers :: "(string \<times> string) list"

definition member_step :: "dstate \<Rightarrow> char \<Rightarrow> dstate" where
  "member_step d c =
     (let depth = length (parseState (dscan d));
          r = scan_step (dscan d) c;
          v = fst r;
          d1 = d\<lparr>dscan := snd r\<rparr>
      in case dmode d of
           DIdle \<Rightarrow>
             if v = ScanBeginLiteral \<and> depth = 1 then d1\<lparr>dmode := DKey, dkey := [c]\<rparr> else d1
         | DKey \<Rightarrow>
             if v = ScanContinue then d1\<lparr>dkey := dkey d @ [c]\<rparr>
             else if v = ScanObjectKey then d1\<lparr>dmode := DBeforeValue\<rparr>
             else d1\<lparr>dmode := DColon\<rparr>
         | DColon \<Rightarrow> if v = ScanObjectKey then d1\<lparr>dmode := DBeforeValue\<rparr> else d1
         | DBeforeValue \<Rightarrow>
             if v = ScanSkipSpace then d1 else d1\<lparr>dmode := DValue, dval := [c]\<rparr>
         | DValue \<Rightarrow>
             if 1 < depth \<or> v = ScanContinue then d1\<lparr>dval := dval d @ [c]\<rparr>
             else d1\<lparr>dmode := DIdle, dmembers := dmembers d @ [(dkey d, dval d)]\<rparr>)"

definition object_members :: "string \<Rightarrow> (string \<times> string) list" where
  "object_members data =
     dmembers (foldl member_step
       \<lparr>dscan = scanner_reset, dmode = DIdle, dkey = [], dval = [], dmembers = []\<rparr> data)"

text \<open>
  Storing one member into the message. A key that selects no field is skipped. A string
  field takes a string, ignores \<^verbatim>\<open>null\<close> and rejects every other value
  (\<^verbatim>\<open>UnmarshalTypeError\<close>); the timestamp goes to \<^verbatim>\<open>Time.UnmarshalJSON\<close>, which ignores
  \<^verbatim>\<open>null\<close>; the payload keeps the bytes of any value. Go notes a type error and decodes on,
  returning the error at the end; the caller drops the message on any error, so the first
  error ends the decoding here.
\<close>

definition store_member :: "'t timelib \<Rightarrow> 't Message \<Rightarrow> string \<times> string \<Rightarrow> 't Message option" where
  "store_member tm m kv =
     (case unquoteBytes (fst kv) of
        None \<Rightarrow> None
      | Some key \<Rightarrow>
          (case field_of_key key of
             None \<Rightarrow> Some m
           | Some FPayload \<Rightarrow> Some (m\<lparr>Payload := Some (snd kv)\<rparr>)
           | Some FTimestamp \<Rightarrow>
               if snd kv = ''null'' then Some m
               else map_option (\<lambda>t. m\<lparr>Timestamp := t\<rparr>) (time_UnmarshalJSON tm (snd kv))
           | Some fld \<Rightarrow>
               if take 1 (snd kv) = [CHR 0x22] then
                 map_option
                   (\<lambda>v. if fld = FSessionID then m\<lparr>SessionID := v\<rparr>
                        else if fld = FToolset then m\<lparr>Toolset := v\<rparr>
                        else m\<lparr>Direction := v\<rparr>)
                   (unquoteBytes (snd kv))
               else if take 1 (snd kv) = ''n'' then Some m
               else None))"

fun store_members :: "'t timelib \<Rightarrow> 't Message \<Rightarrow> (string \<times> string) list \<Rightarrow> 't Message option" where
  "store_members tm m [] = Some m"
| "store_members tm m (kv # kvs) =
     (case store_member tm m kv of None \<Rightarrow> None | Some m1 \<Rightarrow> store_members tm m1 kvs)"

definition zero_Message :: "'t timelib \<Rightarrow> 't Message" where
  "zero_Message tm =
     \<lparr>SessionID = [], Toolset = [], Direction = [], Timestamp = time_zero tm, Payload = None\<rparr>"

text \<open>
  \<^verbatim>\<open>json.Unmarshal(data, &msg)\<close> into a fresh message: the text is checked first; an object
  is decoded member by member, \<^verbatim>\<open>null\<close> leaves the message as it is, and any other value
  is an \<^verbatim>\<open>UnmarshalTypeError\<close>.
\<close>

definition json_Unmarshal :: "'t timelib \<Rightarrow> string \<Rightarrow> 't Message option" where
  "json_Unmarshal tm data =
     (if \<not> checkValid data then None
      else case dropWhile isSpace data of
        [] \<Rightarrow> None
      | c # _ \<Rightarrow>
          if c = CHR ''{'' then store_members tm (zero_Message tm) (object_members data)
          else if c = CHR ''n'' then Some (zero_Message tm)
          else None)"

subsection \<open>Session identifiers and paths\<close>

text \<open>The \<^verbatim>\<open>switch\<close> of the mapping function, on a rune below \<^verbatim>\<open>utf8.RuneSelf\<close>.\<close>

definition sanitize_ascii :: "char \<Rightarrow> char" where
  "sanitize_ascii r =
     (if CHR ''a'' \<le> r \<and> r \<le> CHR ''z'' then r
      else if CHR ''A'' \<le> r \<and> r \<le> CHR ''Z'' then r
      else if CHR ''0'' \<le> r \<and> r \<le> CHR ''9'' then r
      else if r = CHR ''-'' \<or> r = CHR ''_'' \<or> r = CHR ''.'' then r
      else CHR ''_'')"

text \<open>
  \<^verbatim>\<open>strings.Map\<close> walks the string rune by rune: a multi-byte rune and a byte that is not
  well-formed UTF-8 (read as \<^verbatim>\<open>RuneError\<close>, width 1) both take the default case and
  become one underscore.
\<close>

fun sanitizeSessionID :: "string \<Rightarrow> string" where
  "sanitizeSessionID [] = []"
| "sanitizeSessionID (c # cs) =
     (case utf8_size (c # cs) of
        None \<Rightarrow> CHR ''_'' # sanitizeSessionID cs
      | Some n \<Rightarrow>
          (if n = 1 then sanitize_ascii c else CHR ''_'') # sanitizeSessionID (drop (n - 1) cs))"

text \<open>
  A path below the root: the status directory (\<open>True\<close> for \<^verbatim>\<open>archived\<close>, \<open>False\<close> for
  \<^verbatim>\<open>active\<close>) and the file name in it.
\<close>

type_synonym path = "bool \<times> string"

record Store =
  rootDir :: string

definition sessionPath :: "Store \<Rightarrow> string \<Rightarrow> bool \<Rightarrow> path" where
  "sessionPath s sessionID archived = (archived, sanitizeSessionID sessionID @ ''.jsonl'')"

subsection \<open>The file system below the root\<close>

datatype node = File string | Dir

type_synonym dir = "(string, node) fmap"

datatype sysop =
    SysStat | SysReadFile | SysOpenAppend | SysWrite | SysRemove | SysRename
  | SysMkdirAll | SysReadDir | SysOpen | SysRead | SysMkdirExport | SysWriteExport

text \<open>
  A status directory is absent (\<open>None\<close>) or holds finitely many named entries. Any system
  call may fail for a reason outside the model (permissions, a full disk): \<open>io_fault\<close>
  says which calls do. A failing write leaves the first \<open>short_write\<close> bytes in the file,
  a failing read delivers the first \<open>short_read\<close> bytes.
\<close>

record fs =
  active_dir :: "dir option"
  archived_dir :: "dir option"
  io_fault :: "sysop \<Rightarrow> path \<Rightarrow> bool"
  short_write :: nat
  short_read :: nat

definition status_dir :: "fs \<Rightarrow> bool \<Rightarrow> dir option" where
  "status_dir f archived = (if archived then archived_dir f else active_dir f)"

definition set_status_dir :: "bool \<Rightarrow> dir option \<Rightarrow> fs \<Rightarrow> fs" where
  "set_status_dir archived d f =
     (if archived then f\<lparr>archived_dir := d\<rparr> else f\<lparr>active_dir := d\<rparr>)"

definition lookup :: "fs \<Rightarrow> path \<Rightarrow> node option" where
  "lookup f p = (case status_dir f (fst p) of None \<Rightarrow> None | Some d \<Rightarrow> fmlookup d (snd p))"

definition dir_exists :: "fs \<Rightarrow> bool \<Rightarrow> bool" where
  "dir_exists f archived \<longleftrightarrow> status_dir f archived \<noteq> None"

text \<open>Setting (\<open>Some\<close>) or deleting (\<open>None\<close>) the entry of a path in an existing directory.\<close>

definition store_node :: "fs \<Rightarrow> path \<Rightarrow> node option \<Rightarrow> fs" where
  "store_node f p v =
     (case status_dir f (fst p) of
        None \<Rightarrow> f
      | Some d \<Rightarrow>
          set_status_dir (fst p)
            (Some (case v of None \<Rightarrow> fmdrop (snd p) d | Some n \<Rightarrow> fmupd (snd p) n d)) f)"

datatype stat = StatOk | StatNotExist | StatError

definition os_Stat :: "fs \<Rightarrow> path \<Rightarrow> stat" where
  "os_Stat f p =
     (if io_fault f SysStat p then StatError
      else case lookup f p of None \<Rightarrow> StatNotExist | Some _ \<Rightarrow> StatOk)"

definition os_ReadFile :: "fs \<Rightarrow> path \<Rightarrow> string option" where
  "os_ReadFile f p =
     (if io_fault f SysReadFile p then None
      else case lookup f p of Some (File data) \<Rightarrow> Some data | _ \<Rightarrow> None)"

text \<open>
  \<^verbatim>\<open>os.OpenFile(path, O_CREATE|O_APPEND|O_WRONLY, 0o600)\<close>: the file is created empty when
  it is absent; the call fails when the directory is absent or the name is a directory.
\<close>

definition os_OpenFile :: "fs \<Rightarrow> path \<Rightarrow> fs option" where
  "os_OpenFile f p =
     (if io_fault f SysOpenAppend p \<or> \<not> dir_exists f (fst p) then None
      else case lookup f p of
        None \<Rightarrow> Some (store_node f p (Some (File [])))
      | Some (File _) \<Rightarrow> Some f
      | Some Dir \<Rightarrow> None)"

definition append_bytes :: "fs \<Rightarrow> path \<Rightarrow> string \<Rightarrow> fs" where
  "append_bytes f p bs =
     (case lookup f p of
        Some (File data) \<Rightarrow> store_node f p (Some (File (data @ bs)))
      | _ \<Rightarrow> f)"

text \<open>\<^verbatim>\<open>file.Write\<close> on a file opened for appending: success, and the state afterwards.\<close>

definition file_Write :: "fs \<Rightarrow> path \<Rightarrow> string \<Rightarrow> bool \<times> fs" where
  "file_Write f p bs =
     (if io_fault f SysWrite p then (False, append_bytes f p (take (short_write f) bs))
      else (True, append_bytes f p bs))"

text \<open>
  \<^verbatim>\<open>os.Remove\<close>. The contents of a sub-directory are not part of the state, so removing
  one is taken to fail; the store only removes what it has read as a file.
\<close>

definition os_Remove :: "fs \<Rightarrow> path \<Rightarrow> fs option" where
  "os_Remove f p =
     (if io_fault f SysRemove p then None
      else case lookup f p of
        Some (File _) \<Rightarrow> Some (store_node f p None)
      | _ \<Rightarrow> None)"

text \<open>
  \<^verbatim>\<open>os.Rename(source, dest)\<close>: the entry moves as a whole; a file replaces a file of the
  destination name, any other existing destination makes the call fail.
\<close>

definition os_Rename :: "fs \<Rightarrow> path \<Rightarrow> path \<Rightarrow> fs option" where
  "os_Rename f source dest =
     (if io_fault f SysRename source \<or> \<not> dir_exists f (fst dest) then None
      else case lookup f source of
        None \<Rightarrow> None
      | Some n \<Rightarrow>
          (if (case lookup f dest of None \<Rightarrow> True | Some (File _) \<Rightarrow> n \<noteq> Dir | Some Dir \<Rightarrow> False)
           then Some (store_node (store_node f source None) dest (Some n))
           else None))"

subsection \<open>Archiving a session\<close>

definition appendFile :: "fs \<Rightarrow> path \<Rightarrow> path \<Rightarrow> error option \<times> fs" where
  "appendFile f dest source =
     (case os_ReadFile f source of
        None \<Rightarrow> (Some ErrReadSession, f)
      | Some data \<Rightarrow>
          (case os_OpenFile f dest of
             None \<Rightarrow> (Some ErrOpenArchive, f)
           | Some f1 \<Rightarrow>
               (case file_Write f1 dest data of
                  (False, f2) \<Rightarrow> (Some ErrAppendArchive, f2)
                | (True, f2) \<Rightarrow> (None, f2))))"

text \<open>The receiver is a pointer, and \<open>None\<close> is the nil store.\<close>

definition ArchiveSession :: "Store option \<Rightarrow> string \<Rightarrow> fs \<Rightarrow> error option \<times> fs" where
  "ArchiveSession so sessionID f =
     (case so of
        None \<Rightarrow> (None, f)
      | Some s \<Rightarrow>
          if sessionID = [] then (None, f)
          else
            (let source = sessionPath s sessionID False;
                 dest = sessionPath s sessionID True
             in case os_Stat f source of
                  StatNotExist \<Rightarrow> (None, f)
                | StatError \<Rightarrow> (Some ErrStatSession, f)
                | StatOk \<Rightarrow>
                    (case os_Stat f dest of
                       StatOk \<Rightarrow>
                         (case appendFile f dest source of
                            (Some e, f1) \<Rightarrow> (Some e, f1)
                          | (None, f1) \<Rightarrow>
                              (case os_Remove f1 source of
                                 None \<Rightarrow> (Some ErrRemoveSession, f1)
                               | Some f2 \<Rightarrow> (None, f2)))
                     | StatError \<Rightarrow> (Some ErrStatArchive, f)
                     | StatNotExist \<Rightarrow>
                         (case os_Rename f source dest of
                            None \<Rightarrow> (Some ErrArchiveSession, f)
                          | Some f1 \<Rightarrow> (None, f1)))))"

subsection \<open>Creating the store\<close>

text \<open>
  The width of the rune at the head when \<^verbatim>\<open>unicode.IsSpace\<close> holds for it: the six ASCII
  spaces, U+0085, U+00A0, U+1680, U+2000 to U+200A, U+2028, U+2029, U+202F, U+205F and
  U+3000, given by their UTF-8 bytes.
\<close>

definition space_size :: "string \<Rightarrow> nat option" where
  "space_size s =
     (if take 1 s \<in> {[CHR 0x09], [CHR 0x0A], [CHR 0x0B], [CHR 0x0C], [CHR 0x0D], [CHR 0x20]}
      then Some 1
      else if take 2 s = [CHR 0xC2, CHR 0x85] \<or> take 2 s = [CHR 0xC2, CHR 0xA0] then Some 2
      else if take 3 s = [CHR 0xE1, CHR 0x9A, CHR 0x80]
           \<or> (take 2 s = [CHR 0xE2, CHR 0x80] \<and> length s \<ge> 3
               \<and> (byte (s ! 2) \<in> {0x80..0x8A} \<or> byte (s ! 2) \<in> {0xA8, 0xA9, 0xAF}))
           \<or> take 3 s = [CHR 0xE2, CHR 0x81, CHR 0x9F]
           \<or> take 3 s = [CHR 0xE3, CHR 0x80, CHR 0x80]
      then Some 3
      else None)"

text \<open>\<^verbatim>\<open>strings.TrimSpace(s) == ""\<close>: every rune of the string is white space.\<close>

fun blank :: "string \<Rightarrow> bool" where
  "blank [] = True"
| "blank (c # cs) =
     (case space_size (c # cs) of None \<Rightarrow> False | Some n \<Rightarrow> blank (drop (n - 1) cs))"

definition os_MkdirAll :: "fs \<Rightarrow> bool \<Rightarrow> fs option" where
  "os_MkdirAll f archived =
     (if io_fault f SysMkdirAll (archived, []) then None
      else if dir_exists f archived then Some f
      else Some (set_status_dir archived (Some fmempty) f))"

definition NewStore :: "string \<Rightarrow> fs \<Rightarrow> (error + Store option) \<times> fs" where
  "NewStore root f =
     (if blank root then (Inr None, f)
      else case os_MkdirAll f False of
        None \<Rightarrow> (Inl ErrCreateStorageDir, f)
      | Some f1 \<Rightarrow>
          (case os_MkdirAll f1 True of
             None \<Rightarrow> (Inl ErrCreateArchiveDir, f1)
           | Some f2 \<Rightarrow> (Inr (Some \<lparr>rootDir = root\<rparr>), f2)))"

subsection \<open>Recording a message\<close>

text \<open>
  \<open>now\<close> is what \<^verbatim>\<open>s.now()\<close> returns. The payload parameter is a byte slice, nil (\<open>None\<close>)
  or not. The line goes through a \<^verbatim>\<open>bufio.Writer\<close> of 4096 bytes: a longer line is written
  to the file by \<^verbatim>\<open>Write\<close>, a shorter one by \<^verbatim>\<open>Flush\<close>.
\<close>

definition RecordMessage ::
  "'t timelib \<Rightarrow> Store option \<Rightarrow> 't \<Rightarrow> string \<Rightarrow> string \<Rightarrow> string \<Rightarrow> string option \<Rightarrow> fs
    \<Rightarrow> error option \<times> fs" where
  "RecordMessage tm so now sessionID toolset direction payload f =
     (case so of
        None \<Rightarrow> (None, f)
      | Some s \<Rightarrow>
          if sessionID = [] then (Some ErrSessionRequired, f)
          else
            (let message = \<lparr>SessionID = sessionID, Toolset = toolset, Direction = direction,
                   Timestamp = now, Payload = payload\<rparr>
             in case json_Marshal tm message of
                  None \<Rightarrow> (Some ErrMarshalMessage, f)
                | Some data \<Rightarrow>
                    (let path = sessionPath s sessionID False
                     in case os_OpenFile f path of
                          None \<Rightarrow> (Some ErrOpenSession, f)
                        | Some f1 \<Rightarrow>
                            (case file_Write f1 path (data @ [CHR 0x0A]) of
                               (False, f2) \<Rightarrow>
                                 (Some (if 4096 < length (data @ [CHR 0x0A])
                                        then ErrWriteMessage else ErrFlushMessage), f2)
                             | (True, f2) \<Rightarrow> (None, f2)))))"

subsection \<open>Loading the chats of a status\<close>

record 't Chat =
  ChatSessionID :: string
  Archived :: bool
  Messages :: "'t Message list"

text \<open>
  The tokens of a \<^verbatim>\<open>bufio.Scanner\<close> with \<^verbatim>\<open>ScanLines\<close>, before the carriage return is
  dropped: the text is cut at each newline, and a last line without newline is a token
  when it is not empty.
\<close>

fun split_lines :: "string \<Rightarrow> string \<Rightarrow> string list" where
  "split_lines cur [] = (if cur = [] then [] else [cur])"
| "split_lines cur (c # cs) =
     (if c = CHR 0x0A then cur # split_lines [] cs else split_lines (cur @ [c]) cs)"

definition dropCR :: "string \<Rightarrow> string" where
  "dropCR line = (if line \<noteq> [] \<and> last line = CHR 0x0D then butlast line else line)"

definition maxTokenSize :: nat where
  "maxTokenSize = 10 * 1024 * 1024"

text \<open>
  The loop of \<^verbatim>\<open>readMessages\<close> over the lines. The scanner gives up with \<^verbatim>\<open>ErrTooLong\<close> at
  a line that does not fit its buffer of \<^verbatim>\<open>maxTokenSize\<close> bytes.
\<close>

fun decode_lines :: "'t timelib \<Rightarrow> string list \<Rightarrow> error + 't Message list" where
  "decode_lines tm [] = Inr []"
| "decode_lines tm (l # ls) =
     (if maxTokenSize \<le> length l then Inl ErrScanSession
      else case json_Unmarshal tm (dropCR l) of
        None \<Rightarrow> Inl ErrDecodeMessage
      | Some msg \<Rightarrow>
          (case decode_lines tm ls of
             Inl e \<Rightarrow> Inl e
           | Inr messages \<Rightarrow> Inr (msg # messages)))"

text \<open>
  A read that fails delivers the first \<open>short_read\<close> bytes; the scanner hands out what it
  holds as tokens and keeps the error for \<^verbatim>\<open>scanner.Err\<close>. Reading a directory fails at
  once.
\<close>

definition readMessages :: "'t timelib \<Rightarrow> fs \<Rightarrow> path \<Rightarrow> error + 't Message list" where
  "readMessages tm f p =
     (if io_fault f SysOpen p then Inl ErrOpenSession
      else case lookup f p of
        None \<Rightarrow> Inl ErrOpenSession
      | Some Dir \<Rightarrow> Inl ErrScanSession
      | Some (File data) \<Rightarrow>
          if io_fault f SysRead p then
            (case decode_lines tm (split_lines [] (take (short_read f) data)) of
               Inl e \<Rightarrow> Inl e
             | Inr _ \<Rightarrow> Inl ErrScanSession)
          else decode_lines tm (split_lines [] data))"

datatype readdir = DirEntries "(string \<times> node) list" | DirNotExist | DirError

text \<open>\<^verbatim>\<open>os.ReadDir\<close> returns the entries sorted by file name.\<close>

definition os_ReadDir :: "fs \<Rightarrow> bool \<Rightarrow> readdir" where
  "os_ReadDir f archived =
     (if io_fault f SysReadDir (archived, []) then DirError
      else case status_dir f archived of
        None \<Rightarrow> DirNotExist
      | Some d \<Rightarrow> DirEntries (sorted_list_of_fmap d))"

definition HasSuffix :: "string \<Rightarrow> string \<Rightarrow> bool" where
  "HasSuffix s suffix \<longleftrightarrow>
     length suffix \<le> length s \<and> drop (length s - length suffix) s = suffix"

definition TrimSuffix :: "string \<Rightarrow> string \<Rightarrow> string" where
  "TrimSuffix s suffix = (if HasSuffix s suffix then take (length s - length suffix) s else s)"

text \<open>
  The loop of \<^verbatim>\<open>loadChats\<close> over the directory entries. \<open>ctx\<close> says whether the context is
  cancelled (\<^verbatim>\<open>ctx.Err() != nil\<close>); it is read once for each entry.
\<close>

fun load_entries ::
  "'t timelib \<Rightarrow> bool \<Rightarrow> fs \<Rightarrow> bool \<Rightarrow> (string \<times> node) list \<Rightarrow> error + 't Chat list" where
  "load_entries tm ctx f archived [] = Inr []"
| "load_entries tm ctx f archived (entry # entries) =
     (if ctx then Inl ErrContext
      else if snd entry = Dir \<or> \<not> HasSuffix (fst entry) ''.jsonl'' then
        load_entries tm ctx f archived entries
      else case readMessages tm f (archived, fst entry) of
        Inl e \<Rightarrow> Inl e
      | Inr messages \<Rightarrow>
          (case load_entries tm ctx f archived entries of
             Inl e \<Rightarrow> Inl e
           | Inr chats \<Rightarrow>
               Inr (\<lparr>ChatSessionID = TrimSuffix (fst entry) ''.jsonl'', Archived = archived,
                     Messages = messages\<rparr> # chats)))"

definition loadChats :: "'t timelib \<Rightarrow> Store \<Rightarrow> bool \<Rightarrow> bool \<Rightarrow> fs \<Rightarrow> error + 't Chat list" where
  "loadChats tm s ctx archived f =
     (case os_ReadDir f archived of
        DirNotExist \<Rightarrow> Inr []
      | DirError \<Rightarrow> Inl ErrReadDir
      | DirEntries entries \<Rightarrow> load_entries tm ctx f archived entries)"

subsection \<open>Exporting\<close>

record 't Export =
  ExportedAt :: 't
  ActiveChats :: nat
  ArchivedChats :: nat
  Chats :: "'t Chat list"

text \<open>The \<^verbatim>\<open>less\<close> function handed to \<^verbatim>\<open>sort.Slice\<close>: byte-wise order of the identifiers.\<close>

definition chat_less :: "'t Chat \<Rightarrow> 't Chat \<Rightarrow> bool" where
  "chat_less a b \<longleftrightarrow> ChatSessionID a < ChatSessionID b"

text \<open>
  \<^verbatim>\<open>json.MarshalIndent\<close> of the export fails when a \<^verbatim>\<open>Marshaler\<close> in it fails: the time of
  the export, or the timestamp or payload of a message.
\<close>

definition export_marshals :: "'t timelib \<Rightarrow> 't Export \<Rightarrow> bool" where
  "export_marshals tm x \<longleftrightarrow>
     (case time_MarshalJSON tm (ExportedAt x) of
        None \<Rightarrow> False
      | Some tb \<Rightarrow> appendCompact tb \<noteq> None)
     \<and> list_all (\<lambda>c. list_all (\<lambda>m. json_Marshal tm m \<noteq> None) (Messages c)) (Chats x)"

text \<open>
  \<^verbatim>\<open>sort.Slice\<close> is a parameter, \<open>sort_Slice\<close>: the function from the \<^verbatim>\<open>less\<close> function and
  the slice to the slice after the call. The export file lies outside the two status
  directories, so the state is not changed; on success the result is the snapshot that was
  written to the file.
\<close>

definition ExportAll ::
  "'t timelib \<Rightarrow> (('t Chat \<Rightarrow> 't Chat \<Rightarrow> bool) \<Rightarrow> 't Chat list \<Rightarrow> 't Chat list)
    \<Rightarrow> Store option \<Rightarrow> 't \<Rightarrow> bool \<Rightarrow> string \<Rightarrow> fs \<Rightarrow> error + 't Export" where
  "ExportAll tm sort_Slice so now ctx outputPath f =
     (case so of
        None \<Rightarrow> Inl ErrNotConfigured
      | Some s \<Rightarrow>
          if blank outputPath then Inl ErrOutputRequired
          else case loadChats tm s ctx False f of
            Inl e \<Rightarrow> Inl e
          | Inr activeChats \<Rightarrow>
              (case loadChats tm s ctx True f of
                 Inl e \<Rightarrow> Inl e
               | Inr archivedChats \<Rightarrow>
                   (let export = \<lparr>ExportedAt = now,
                          ActiveChats = length activeChats,
                          ArchivedChats = length archivedChats,
                          Chats = sort_Slice chat_less (activeChats @ archivedChats)\<rparr>
                    in if \<not> export_marshals tm export then Inl ErrMarshalExport
                       else if io_fault f SysMkdirExport (False, outputPath) then
                         Inl ErrCreateExportDir
                       else if io_fault f SysWriteExport (False, outputPath) then
                         Inl ErrWriteExport
                       else Inr export)))"

text \<open>A log holding the given records: each record followed by the separator.\<close>

definition log_of :: "string list \<Rightarrow> string" where
  "log_of records = concat (map (\<lambda>r. r @ [CHR 0x0A]) records)"

subsection \<open>States used as examples\<close>

definition store0 :: Store where
  "store0 = \<lparr>rootDir = ''/var/chats''\<rparr>"

definition no_fault :: "sysop \<Rightarrow> path \<Rightarrow> bool" where
  "no_fault op p = False"

text \<open>A session \<^verbatim>\<open>a\<close> with two active records and two archived ones.\<close>

definition fs_both :: fs where
  "fs_both =
     \<lparr>active_dir = Some (fmupd ''a.jsonl'' (File (log_of [''1'', ''2''])) fmempty),
      archived_dir = Some (fmupd ''a.jsonl'' (File (log_of [''8'', ''9''])) fmempty),
      io_fault = no_fault, short_write = 0, short_read = 0\<rparr>"

definition fs_merged :: fs where
  "fs_merged =
     \<lparr>active_dir = Some fmempty,
      archived_dir = Some (fmupd ''a.jsonl'' (File (log_of [''8'', ''9'', ''1'', ''2''])) fmempty),
      io_fault = no_fault, short_write = 0, short_read = 0\<rparr>"


text \<open>A time library with a single instant, written as one fixed RFC 3339 text.\<close>

definition stamp_text :: string where
  "stamp_text = [CHR 0x22] @ ''2025-01-01T00:00:00Z'' @ [CHR 0x22]"

definition time_unit :: "unit timelib" where
  "time_unit =
     \<lparr>time_MarshalJSON = (\<lambda>t. Some stamp_text),
      time_UnmarshalJSON = (\<lambda>b. if b = stamp_text then Some () else None),
      time_zero = ()\<rparr>"

text \<open>
  Insertion sort, which \<^verbatim>\<open>sort.Slice\<close> runs on a slice of at most twelve elements: each
  element moves left past the elements it is less than.
\<close>

definition insert_sorted :: "('a \<Rightarrow> 'a \<Rightarrow> bool) \<Rightarrow> 'a \<Rightarrow> 'a list \<Rightarrow> 'a list" where
  "insert_sorted lessf x ys =
     takeWhile (\<lambda>y. \<not> lessf x y) ys @ x # dropWhile (\<lambda>y. \<not> lessf x y) ys"

definition insertionSort :: "('a \<Rightarrow> 'a \<Rightarrow> bool) \<Rightarrow> 'a list \<Rightarrow> 'a list" where
  "insertionSort lessf xs = foldl (\<lambda>acc x. insert_sorted lessf x acc) [] xs"




text \<open>
  An active log \<^verbatim>\<open>b\<close> with the record \<^verbatim>\<open>{}\<close> and an active log \<^verbatim>\<open>c\<close> with a line that is
  no JSON text; the directory \<^verbatim>\<open>archived\<close> is missing.
\<close>

definition fs_bad_line :: fs where
  "fs_bad_line =
     \<lparr>active_dir = Some (fmupd ''c.jsonl'' (File (log_of [''{}'', ''oops'']))
        (fmupd ''b.jsonl'' (File (log_of [''{}''])) fmempty)),
      archived_dir = None,
      io_fault = no_fault, short_write = 0, short_read = 0\<rparr>"





section \<open>Properties\<close>

subsection \<open>The file system\<close>

lemma status_dir_set [simp]:
  "status_dir (set_status_dir a d f) b = (if a = b then d else status_dir f b)"
  by (simp add: status_dir_def set_status_dir_def)

lemma io_fault_set [simp]: "io_fault (set_status_dir a d f) = io_fault f"
  and short_write_set [simp]: "short_write (set_status_dir a d f) = short_write f"
  and short_read_set [simp]: "short_read (set_status_dir a d f) = short_read f"
  by (simp_all add: set_status_dir_def)

lemma io_fault_store [simp]: "io_fault (store_node f p v) = io_fault f"
  and short_write_store [simp]: "short_write (store_node f p v) = short_write f"
  and short_read_store [simp]: "short_read (store_node f p v) = short_read f"
  by (simp_all add: store_node_def split: option.splits)

lemma dir_exists_store [simp]: "dir_exists (store_node f p v) a = dir_exists f a"
  by (simp add: store_node_def dir_exists_def split: option.splits)

lemma lookup_store [simp]:
  "lookup (store_node f p v) q = (if q = p \<and> dir_exists f (fst p) then v else lookup f q)"
  by (cases p; cases q)
     (auto simp: store_node_def lookup_def dir_exists_def split: option.splits)

lemma lookup_no_dir [simp]: "\<not> dir_exists f (fst p) \<Longrightarrow> lookup f p = None"
  by (simp add: lookup_def dir_exists_def)

lemma lookup_dir_exists: "lookup f p = Some n \<Longrightarrow> dir_exists f (fst p)"
  by (auto simp: lookup_def dir_exists_def split: option.splits)

lemma status_dir_store_other [simp]:
  "fst p \<noteq> a \<Longrightarrow> status_dir (store_node f p v) a = status_dir f a"
  by (simp add: store_node_def split: option.splits)

lemma active_dir_store_archived [simp]: "active_dir (store_node f (True, n) v) = active_dir f"
  using status_dir_store_other [of "(True, n)" False f v] by (simp add: status_dir_def)

lemma archived_dir_store_active [simp]: "archived_dir (store_node f (False, n) v) = archived_dir f"
  using status_dir_store_other [of "(False, n)" True f v] by (simp add: status_dir_def)

lemma sessionPath_simps [simp]: "sessionPath s sid a = (a, sanitizeSessionID sid @ ''.jsonl'')"
  by (simp add: sessionPath_def)

lemmas os_defs = os_Stat_def os_ReadFile_def os_OpenFile_def
  file_Write_def append_bytes_def os_Remove_def os_Rename_def

lemma os_Stat_StatOk:
  "os_Stat f p = StatOk \<longleftrightarrow> \<not> io_fault f SysStat p \<and> lookup f p \<noteq> None"
  by (auto simp: os_Stat_def split: option.splits)

lemma os_Stat_StatNotExist:
  "os_Stat f p = StatNotExist \<longleftrightarrow> \<not> io_fault f SysStat p \<and> lookup f p = None"
  by (auto simp: os_Stat_def split: option.splits)

lemma os_Stat_StatError: "os_Stat f p = StatError \<longleftrightarrow> io_fault f SysStat p"
  by (auto simp: os_Stat_def split: option.splits)

subsection \<open>Example states, evaluated\<close>

lemma byte_simps [simp]: "byte (CHR ''a'') = 97"
  by (simp add: byte_def)

lemma sanitize_a [simp]: "sanitizeSessionID ''a'' = ''a''"
  by (simp add: sanitize_ascii_def)

lemma dir_exists_fs_both [simp]: "dir_exists fs_both a"
  by (simp add: dir_exists_def status_dir_def fs_both_def)

lemma lookup_fs_both [simp]:
  "lookup fs_both (False, ''a.jsonl'') = Some (File (log_of [''1'', ''2'']))"
  "lookup fs_both (True, ''a.jsonl'') = Some (File (log_of [''8'', ''9'']))"
  by (simp_all add: lookup_def status_dir_def fs_both_def)

lemma store_node_fs_both:
  "store_node (store_node fs_both (True, ''a.jsonl'') (Some (File (log_of [''8'', ''9'', ''1'', ''2''])))) 
     (False, ''a.jsonl'') None = fs_merged"
  by (simp add: store_node_def set_status_dir_def status_dir_def fs_both_def fs_merged_def
      fmdrop_fmupd_same)


lemma archive_fs_both: "ArchiveSession (Some store0) ''a'' fs_both = (None, fs_merged)"
  by (simp add: ArchiveSession_def Let_def appendFile_def os_defs sanitize_ascii_def
      fs_both_def [THEN arg_cong [where f = io_fault]]
      no_fault_def store_node_fs_both [symmetric] log_of_def)

lemma lookup_fs_merged [simp]:
  "lookup fs_merged (False, ''a.jsonl'') = None"
  "lookup fs_merged (True, ''a.jsonl'') = Some (File (log_of [''8'', ''9'', ''1'', ''2'']))"
  by (simp_all add: lookup_def status_dir_def fs_merged_def)

lemma io_fault_append [simp]: "io_fault (append_bytes f p bs) = io_fault f"
  by (simp add: append_bytes_def split: option.splits node.splits)

lemma dir_exists_append [simp]: "dir_exists (append_bytes f p bs) a = dir_exists f a"
  by (simp add: append_bytes_def split: option.splits node.splits)

lemma lookup_append:
  "lookup (append_bytes f p bs) q =
     (case lookup f p of
        Some (File data) \<Rightarrow> if q = p then Some (File (data @ bs)) else lookup f q
      | _ \<Rightarrow> lookup f q)"
  by (auto simp: append_bytes_def dest: lookup_dir_exists split: option.splits node.splits)

text \<open>Success of the archive: the active log is gone.\<close>

lemma archive_success_no_source:
  assumes "ArchiveSession (Some s) sid f = (None, f1)" and "sid \<noteq> []"
  shows "lookup f1 (sessionPath s sid False) = None"
proof -
  let ?src = "sessionPath s sid False" and ?dst = "sessionPath s sid True"
  show ?thesis
  proof (cases "os_Stat f ?src")
    case StatOk
    then have ex: "dir_exists f False"
      by (auto simp: os_Stat_StatOk dest: lookup_dir_exists)
    show ?thesis
    proof (cases "os_Stat f ?dst")
      case 1: StatOk
      then have "dir_exists f True"
        by (auto simp: os_Stat_StatOk dest: lookup_dir_exists)
      then show ?thesis using assms StatOk 1 ex
        by (auto simp: ArchiveSession_def Let_def appendFile_def os_ReadFile_def os_OpenFile_def
            file_Write_def append_bytes_def os_Remove_def
            split: if_splits option.splits prod.splits node.splits)
    next
      case StatNotExist
      then show ?thesis using assms StatOk ex
        by (auto simp: ArchiveSession_def Let_def os_Rename_def split: if_splits option.splits)
    next
      case StatError
      then show ?thesis using assms StatOk
        by (auto simp: ArchiveSession_def Let_def split: if_splits)
    qed
  next
    case StatNotExist
    then have "lookup f ?src = None" by (simp add: os_Stat_StatNotExist)
    then show ?thesis using assms StatNotExist
      by (auto simp: ArchiveSession_def Let_def)
  next
    case StatError
    then show ?thesis using assms
      by (auto simp: ArchiveSession_def Let_def)
  qed
qed






lemma archive_merge:
  assumes "sid \<noteq> []"
    and "lookup f (sessionPath s sid False) = Some (File a)"
    and "lookup f (sessionPath s sid True) = Some (File b)"
    and "ArchiveSession (Some s) sid f = (None, f')"
  shows "lookup f' (sessionPath s sid True) = Some (File (b @ a))"
proof -
  have "dir_exists f True" "dir_exists f False"
    using assms(2,3) lookup_dir_exists by fastforce+
  then show ?thesis
    using assms
    by (auto simp: ArchiveSession_def Let_def appendFile_def os_defs split: if_splits)
qed

text \<open>
  C2. When the active log of a session holds the records \<open>as\<close> and its archived log the
  records \<open>bs\<close>, a successful \<^verbatim>\<open>ArchiveSession\<close> leaves the archived log holding \<open>bs\<close>
  followed by \<open>as\<close>, in this order, and no active log for the session.
\<close>

theorem archive_appends_after_archived:
  assumes "sid \<noteq> []"
    and "lookup f (sessionPath s sid False) = Some (File (log_of as))"
    and "lookup f (sessionPath s sid True) = Some (File (log_of bs))"
    and "ArchiveSession (Some s) sid f = (None, f')"
  shows "lookup f' (sessionPath s sid True) = Some (File (log_of (bs @ as)))
       \<and> lookup f' (sessionPath s sid False) = None"
  using archive_merge [OF assms] archive_success_no_source [OF assms(4,1)]
  by (simp add: log_of_def)

theorem archive_appends_after_archived_witness:
  "''a'' \<noteq> []
   \<and> lookup fs_both (sessionPath store0 ''a'' False) = Some (File (log_of [''1'', ''2'']))
   \<and> lookup fs_both (sessionPath store0 ''a'' True) = Some (File (log_of [''8'', ''9'']))
   \<and> ArchiveSession (Some store0) ''a'' fs_both = (None, fs_merged)
   \<and> lookup fs_merged (sessionPath store0 ''a'' True)
       = Some (File (log_of [''8'', ''9'', ''1'', ''2'']))
   \<and> lookup fs_merged (sessionPath store0 ''a'' False) = None"
  using archive_appends_after_archived
    [of "''a''" fs_both store0 "[''1'', ''2'']" "[''8'', ''9'']" fs_merged]
  by (simp add: archive_fs_both sanitize_ascii_def)





text \<open>
  C7. On a configured store, \<^verbatim>\<open>RecordMessage\<close> with the empty session identifier returns
  the error that the session id is required, and the state is the one before the call.
\<close>

theorem record_empty_session_id:
  "RecordMessage tm (Some s) now [] toolset direction payload f = (Some ErrSessionRequired, f)"
  by (simp add: RecordMessage_def)

text \<open>
  C8. \<^verbatim>\<open>NewStore\<close> with a blank root returns the nil store and no error, and leaves the
  state alone. On the nil store \<^verbatim>\<open>RecordMessage\<close> and \<^verbatim>\<open>ArchiveSession\<close> return no error and
  the state they were given, while \<^verbatim>\<open>ExportAll\<close> returns the error that the storage is not
  configured.
\<close>

theorem disabled_store_is_noop:
  assumes "blank root"
  shows "NewStore root f = (Inr None, f)
       \<and> RecordMessage tm None now sessionID toolset direction payload g = (None, g)
       \<and> ArchiveSession None sessionID g = (None, g)
       \<and> ExportAll tm sort_Slice None now ctx outputPath g = Inl ErrNotConfigured"
  using assms by (simp add: NewStore_def RecordMessage_def ArchiveSession_def ExportAll_def)

theorem disabled_store_is_noop_witness:
  "blank ''  ''
   \<and> NewStore ''  '' fs_both = (Inr None, fs_both)
   \<and> RecordMessage time_unit None () ''a'' [] DirectionRequest (Some ''{}'') fs_both
       = (None, fs_both)
   \<and> ArchiveSession None ''a'' fs_both = (None, fs_both)
   \<and> ExportAll time_unit insertionSort None () False ''out.json'' fs_both
       = Inl ErrNotConfigured"
proof -
  have b: "blank ''  ''" by (simp add: space_size_def)
  show ?thesis
    using disabled_store_is_noop [OF b, of fs_both time_unit "()" "''a''" "[]" DirectionRequest
        "Some ''{}''" fs_both insertionSort False "''out.json''"] b
    by simp
qed




subsection \<open>Loading\<close>

lemma decode_lines_bad_line:
  assumes "l \<in> set ls" and "json_Unmarshal tm (dropCR l) = None"
  shows "isl (decode_lines tm ls)"
  using assms by (induction ls) (auto split: option.splits sum.splits)

lemma readMessages_bad_line:
  assumes "lookup f p = Some (File data)" and "l \<in> set (split_lines [] data)"
    and "json_Unmarshal tm (dropCR l) = None"
  shows "isl (readMessages tm f p)"
  using assms decode_lines_bad_line [OF assms(2,3)]
  by (auto simp: readMessages_def split: sum.splits)

lemma load_entries_bad_file:
  assumes "(name, File data) \<in> set entries" and "HasSuffix name ''.jsonl''"
    and "isl (readMessages tm f (archived, name))"
  shows "isl (load_entries tm ctx f archived entries)"
  using assms
proof (induction entries)
  case Nil
  then show ?case by simp
next
  case (Cons entry entries)
  show ?case
  proof (cases "entry = (name, File data)")
    case True
    then show ?thesis using Cons.prems by (auto split: sum.splits)
  next
    case False
    then have "isl (load_entries tm ctx f archived entries)"
      using Cons by simp
    then show ?thesis by (cases ctx) (auto split: sum.splits)
  qed
qed

lemma entry_in_sorted_list:
  assumes "fmlookup d name = Some n"
  shows "(name, n) \<in> set (sorted_list_of_fmap d)"
  using assms map_of_sorted_list [of d] by (metis map_of_SomeD)

text \<open>
  C6. When the status directory is missing (and \<^verbatim>\<open>os.ReadDir\<close> fails for no other reason)
  \<^verbatim>\<open>loadChats\<close> returns no chats and no error. When some line of some log file of the
  directory fails to decode, \<^verbatim>\<open>loadChats\<close> returns an error, hence no chats at all.
\<close>

theorem load_missing_dir_or_bad_line:
  "(status_dir g status = None \<and> \<not> io_fault g SysReadDir (status, [])
      \<longrightarrow> loadChats tm s ctx status g = Inr [])
   \<and> (lookup f (archived, name) = Some (File data) \<and> HasSuffix name ''.jsonl''
        \<and> l \<in> set (split_lines [] data) \<and> json_Unmarshal tm (dropCR l) = None
      \<longrightarrow> isl (loadChats tm s ctx archived f))"
proof (intro conjI impI)
  assume "status_dir g status = None \<and> \<not> io_fault g SysReadDir (status, [])"
  then show "loadChats tm s ctx status g = Inr []"
    by (simp add: loadChats_def os_ReadDir_def)
next
  assume a: "lookup f (archived, name) = Some (File data) \<and> HasSuffix name ''.jsonl''
        \<and> l \<in> set (split_lines [] data) \<and> json_Unmarshal tm (dropCR l) = None"
  then obtain d where d: "status_dir f archived = Some d" "fmlookup d name = Some (File data)"
    by (auto simp: lookup_def split: option.splits)
  have "isl (readMessages tm f (archived, name))"
    using a readMessages_bad_line by blast
  then have "isl (load_entries tm ctx f archived (sorted_list_of_fmap d))"
    using load_entries_bad_file [OF entry_in_sorted_list [OF d(2)]] a by blast
  then show "isl (loadChats tm s ctx archived f)"
    using d by (simp add: loadChats_def os_ReadDir_def)
qed

lemmas scan_defs = checkValid_def scanner_reset_def scan_step_def stateBeginValue_def
  stateBeginValueOrEmpty_def stateBeginString_def stateBeginStringOrEmpty_def stateEndValue_def
  stateEndTop_def stateInString_def stateInStringEsc_def state0_def stateESign_def
  scan_error_def continue_at_def pushParseState_def popParseState_def isSpace_def isDigit_def
  isHex_def eof_ok_def maxNestingDepth_def

lemma unmarshal_oops: "json_Unmarshal tm ''oops'' = None"
  by (simp add: json_Unmarshal_def scan_defs)

lemma split_lines_bad: "split_lines [] (log_of [''{}'', ''oops'']) = [''{}'', ''oops'']"
  by (simp add: log_of_def)

theorem load_missing_dir_or_bad_line_witness:
  "status_dir fs_bad_line True = None \<and> \<not> io_fault fs_bad_line SysReadDir (True, [])
   \<and> loadChats time_unit store0 False True fs_bad_line = Inr []
   \<and> lookup fs_bad_line (False, ''c.jsonl'') = Some (File (log_of [''{}'', ''oops'']))
   \<and> HasSuffix ''c.jsonl'' ''.jsonl''
   \<and> ''oops'' \<in> set (split_lines [] (log_of [''{}'', ''oops'']))
   \<and> json_Unmarshal time_unit (dropCR ''oops'') = None
   \<and> isl (loadChats time_unit store0 False False fs_bad_line)"
  using load_missing_dir_or_bad_line [where g = fs_bad_line and status = True and tm = time_unit
      and s = store0 and ctx = False and f = fs_bad_line and archived = False
      and name = "''c.jsonl''" and data = "log_of [''{}'', ''oops'']" and l = "''oops''"]
  by (simp add: fs_bad_line_def status_dir_def lookup_def no_fault_def HasSuffix_def
      split_lines_bad dropCR_def unmarshal_oops)


subsection \<open>Sorting and exporting\<close>

lemma mset_insert_sorted [simp]: "mset (insert_sorted lessf x ys) = add_mset x (mset ys)"
proof -
  have "mset (takeWhile P ys) + mset (dropWhile P ys) = mset ys" for P :: "'a \<Rightarrow> bool"
    by (metis mset_append takeWhile_dropWhile_id)
  then show ?thesis by (simp add: insert_sorted_def)
qed

lemma mset_foldl_insert_sorted:
  "mset (foldl (\<lambda>acc x. insert_sorted lessf x acc) acc xs) = mset acc + mset xs"
  by (induction xs arbitrary: acc) simp_all

lemma mset_insertionSort [simp]: "mset (insertionSort lessf xs) = mset xs"
  by (simp add: insertionSort_def mset_foldl_insert_sorted)










lemma sorted_list_of_fmap_empty [simp]: "sorted_list_of_fmap fmempty = []"
  by (simp add: sorted_list_of_fmap_def sorted_list_of_fset.rep_eq)














end
